theory Spec2Isabelle
  imports Main "HOL-Library.AList"
begin

section \<open>Python values and dictionaries\<close>

text \<open>
  The values that travel through the option dictionaries of
  \<^verbatim>\<open>molecule/provisioner/ansible_playbook.py\<close>: \<^verbatim>\<open>None\<close>, booleans, integers, strings
  and lists of strings. \<open>truthy\<close> is Python's truth test, the one behind \<^verbatim>\<open>if value:\<close>.
\<close>

datatype pyval = PNone | PBool bool | PInt int | PStr string | PList "string list"

fun truthy :: "pyval \<Rightarrow> bool" where
  "truthy PNone = False"
| "truthy (PBool b) = b"
| "truthy (PInt i) = (i \<noteq> 0)"
| "truthy (PStr s) = (s \<noteq> [])"
| "truthy (PList xs) = (xs \<noteq> [])"

text \<open>
  A Python \<^verbatim>\<open>dict\<close> keeps its keys in insertion order, so it is an association list:
  \<^verbatim>\<open>d[k] = v\<close> is \<open>AList.update k v d\<close> (in place for a key that is there, at the end for a
  new one), \<^verbatim>\<open>del d[k]\<close> is \<open>AList.delete k d\<close>, \<^verbatim>\<open>d.get(k)\<close> is \<open>map_of d k\<close>.
\<close>

type_synonym dict = "(string \<times> pyval) list"

definition get_truthy :: "dict \<Rightarrow> string \<Rightarrow> bool" where
  \<comment> \<open>\<^verbatim>\<open>if d.get(k):\<close> a missing key gives \<^verbatim>\<open>None\<close>, which is falsy\<close>
  "get_truthy d k = (case map_of d k of None \<Rightarrow> False | Some v \<Rightarrow> truthy v)"

definition merge_dicts :: "dict \<Rightarrow> dict \<Rightarrow> dict" where
  \<comment> \<open>Modelled from the spec: \<^verbatim>\<open>util.merge_dicts\<close> is not among the sources. The spec:
      "Merge context-level options with any locally added CLI arguments (local arguments
      take precedence on key collision)". The result is a new dictionary: a copy of the
      first argument into which \<^verbatim>\<open>b[k]\<close> is stored for every key \<^verbatim>\<open>k\<close> of the second, in
      the order of its keys.\<close>
  "merge_dicts a b =
     fold (\<lambda>k d. case map_of b k of None \<Rightarrow> d | Some v \<Rightarrow> AList.update k v d) (map fst b) a"

section \<open>The configuration, the helpers and the object\<close>

text \<open>
  What \<^verbatim>\<open>DistronodePlaybook\<close> reads of its \<^verbatim>\<open>config\<close>: \<^verbatim>\<open>config.provisioner.options\<close>,
  \<^verbatim>\<open>config.provisioner.inventory_directory\<close>, \<^verbatim>\<open>config.provisioner.playbooks.converge\<close>,
  \<^verbatim>\<open>config.provisioner.distronode_args\<close>, \<^verbatim>\<open>config.distronode_args\<close>, \<^verbatim>\<open>config.action\<close>,
  \<^verbatim>\<open>config.provisioner.env\<close>, \<^verbatim>\<open>config.verifier.env\<close>, \<^verbatim>\<open>config.config["verifier"]["env"]\<close>,
  \<^verbatim>\<open>config.scenario_path\<close> and \<^verbatim>\<open>config.debug\<close>.
\<close>

record config =
  provisioner_options :: dict
  provisioner_inventory_directory :: pyval
  provisioner_playbooks_converge :: "string option"
  provisioner_distronode_args :: "string list"
  config_distronode_args :: "string list"
  config_action :: "string option"
  provisioner_env :: dict
  verifier_env :: dict
  config_verifier_env :: dict
  scenario_path :: string
  config_debug :: bool

text \<open>
  The helpers of \<^verbatim>\<open>molecule.util\<close> that \<^verbatim>\<open>bake\<close> calls are not among the sources and the
  spec does not say what they compute, so they are parameters: every theorem about
  \<^verbatim>\<open>bake\<close> holds for each implementation of them. \<^verbatim>\<open>verbose_flag\<close> receives the merged
  dictionary itself and may delete keys from it, so it returns the flag together with the
  dictionary it leaves behind.
\<close>

record util =
  verbose_flag :: "dict \<Rightarrow> pyval \<times> dict"
  dict2args :: "dict \<Rightarrow> string list"
  bool2args :: "pyval \<Rightarrow> string list"

text \<open>The fields of a \<^verbatim>\<open>DistronodePlaybook\<close> object.\<close>

record distronode_playbook =
  distronode_command :: "string list option"
  playbook :: "string option"
  config :: config
  cli :: dict
  env :: dict

definition init :: "string option \<Rightarrow> config \<Rightarrow> bool \<Rightarrow> distronode_playbook" where
  "init pb cfg verify =
     \<lparr> distronode_command = None,
       playbook = pb,
       config = cfg,
       cli = [],
       env = (if verify then merge_dicts (verifier_env cfg) (config_verifier_env cfg)
              else provisioner_env cfg) \<rparr>"

section \<open>Adding arguments\<close>

definition add_cli_arg :: "string \<Rightarrow> pyval \<Rightarrow> distronode_playbook \<Rightarrow> distronode_playbook" where
  "add_cli_arg name v s = (if truthy v then s\<lparr>cli := AList.update name v (cli s)\<rparr> else s)"

definition add_env_arg :: "string \<Rightarrow> pyval \<Rightarrow> distronode_playbook \<Rightarrow> distronode_playbook" where
  "add_env_arg name v s = s\<lparr>env := AList.update name v (env s)\<rparr>"

section \<open>Baking the command\<close>

definition bake :: "util \<Rightarrow> distronode_playbook \<Rightarrow> distronode_playbook" where
  "bake U s =
     (case playbook s of
        None \<Rightarrow> s
      | Some pb \<Rightarrow>
          if pb = [] then s
          else
            let s1 = add_cli_arg ''inventory'' (provisioner_inventory_directory (config s)) s;
                options = merge_dicts (provisioner_options (config s1)) (cli s1);
                (verbose, options) = verbose_flag U options;
                options =
                  (if playbook s1 \<noteq> provisioner_playbooks_converge (config s1)
                   then (if get_truthy options ''become''
                         then AList.delete ''become'' options else options)
                   else options);
                distronode_args =
                  (if config_action (config s1) \<notin> {Some ''create'', Some ''destroy''}
                   then provisioner_distronode_args (config s1) @ config_distronode_args (config s1)
                   else [])
            in s1\<lparr>distronode_command :=
                    Some ([''distronode-playbook''] @ dict2args U options
                          @ bool2args U verbose @ distronode_args @ [pb])\<rparr>)"

text \<open>
  The values \<^verbatim>\<open>bake\<close> computes on its way, named so that theorems can speak of them:
  the dictionary of line 69, the flag and the dictionary after lines 70 to 73 (the one
  handed to \<^verbatim>\<open>dict2args\<close>), and the extra arguments of lines 83 to 88.
\<close>

definition merged_options :: "distronode_playbook \<Rightarrow> dict" where
  "merged_options s =
     merge_dicts (provisioner_options (config s))
       (cli (add_cli_arg ''inventory'' (provisioner_inventory_directory (config s)) s))"

definition baked_verbose :: "util \<Rightarrow> distronode_playbook \<Rightarrow> pyval" where
  "baked_verbose U s = fst (verbose_flag U (merged_options s))"

definition baked_options :: "util \<Rightarrow> distronode_playbook \<Rightarrow> dict" where
  "baked_options U s =
     (let options = snd (verbose_flag U (merged_options s))
      in if playbook s \<noteq> provisioner_playbooks_converge (config s) \<and> get_truthy options ''become''
         then AList.delete ''become'' options else options)"

definition baked_args :: "distronode_playbook \<Rightarrow> string list" where
  "baked_args s =
     (if config_action (config s) \<in> {Some ''create'', Some ''destroy''} then []
      else provisioner_distronode_args (config s) @ config_distronode_args (config s))"

section \<open>Executing the command\<close>

text \<open>
  \<^verbatim>\<open>execute\<close> talks to the world through the driver's \<^verbatim>\<open>sanity_checks\<close>, through
  \<^verbatim>\<open>util.run_command\<close> and, for its message, through \<^verbatim>\<open>shlex.join\<close> and
  \<^verbatim>\<open>rich.markup.escape\<close>. None of them is among the sources, so they are parameters too:
  \<^verbatim>\<open>sanity_checks\<close> returns (\<open>None\<close>) or raises, \<^verbatim>\<open>run_command\<close> raises or returns the
  completed process. It is handed \<^verbatim>\<open>self._distronode_command\<close> as it stands, \<^verbatim>\<open>None\<close> or a
  list.
\<close>

type_synonym exn = string

record completed =
  returncode :: int
  stdout :: string
  args :: "string list"

record runtime =
  sanity_checks :: "exn option"
  run_command :: "string list option \<Rightarrow> dict \<Rightarrow> bool \<Rightarrow> string \<Rightarrow> exn + completed"
  shlex_join :: "string list \<Rightarrow> string"
  escape :: "string \<Rightarrow> string"

text \<open>
  What a call of \<^verbatim>\<open>execute\<close> does besides returning: the warning it logs, the sanity
  check, the child process it starts (with the command, the environment, the debug flag
  and the working directory it passes).
\<close>

datatype effect =
    LogWarning string
  | SanityChecks
  | RunCommand "string list option" dict bool string

text \<open>
  How a call of \<^verbatim>\<open>execute\<close> ends: it returns \<^verbatim>\<open>None\<close> or the captured output, the host
  process exits with a code after printing a message, or an exception of a collaborator
  goes through.
\<close>

datatype outcome = Returned "string option" | SysExit int string | Raised exn

fun str_nat :: "nat \<Rightarrow> string" where
  "str_nat n =
     (if n < 10 then [''0123456789'' ! n]
      else str_nat (n div 10) @ [''0123456789'' ! (n mod 10)])"

declare str_nat.simps [simp del]

definition str_int :: "int \<Rightarrow> string" where
  \<comment> \<open>Python's \<^verbatim>\<open>str\<close> of an integer, as the f-string formats the return code\<close>
  "str_int i = (if i < 0 then CHR ''-'' # str_nat (nat (- i)) else str_nat (nat i))"

definition str_action :: "string option \<Rightarrow> string" where
  \<comment> \<open>the \<^verbatim>\<open>%s\<close> of the log message\<close>
  "str_action a = (case a of None \<Rightarrow> ''None'' | Some x \<Rightarrow> x)"

definition sysexit_with_message :: "string \<Rightarrow> int \<Rightarrow> outcome" where
  \<comment> \<open>Modelled from the spec: \<^verbatim>\<open>util.sysexit_with_message\<close> is not among the sources. The
      spec: "non-zero child exit code causes the host process to terminate with that same
      code after printing a formatted message". The warnings recorded during the call,
      which it is handed too, are not modelled.\<close>
  "sysexit_with_message msg code = SysExit code msg"

definition prepared :: "util \<Rightarrow> distronode_playbook \<Rightarrow> distronode_playbook" where
  \<comment> \<open>lines 103 and 104: bake unless a command is there\<close>
  "prepared U s = (if distronode_command s = None then bake U s else s)"

definition execute ::
  "util \<Rightarrow> runtime \<Rightarrow> distronode_playbook \<Rightarrow> distronode_playbook \<times> effect list \<times> outcome" where
  "execute U R s0 =
     (let s = prepared U s0 in
      if playbook s = None \<or> playbook s = Some []
      then (s, [LogWarning (''Skipping, '' @ str_action (config_action (config s))
                            @ '' action has no playbook.'')],
            Returned None)
      else
        case sanity_checks R of
          Some e \<Rightarrow> (s, [SanityChecks], Raised e)
        | None \<Rightarrow>
            let cwd = scenario_path (config s);
                call = RunCommand (distronode_command s) (env s) (config_debug (config s)) cwd
            in case run_command R (distronode_command s) (env s) (config_debug (config s)) cwd of
                 Inl e \<Rightarrow> (s, [SanityChecks, call], Raised e)
               | Inr result \<Rightarrow>
                   if returncode result \<noteq> 0
                   then (s, [SanityChecks, call],
                         sysexit_with_message
                           (''Distronode return code was '' @ str_int (returncode result)
                            @ '', command was: [dim]''
                            @ escape R (shlex_join R (args result)) @ ''[/dim]'')
                           (returncode result))
                   else (s, [SanityChecks, call], Returned (Some (stdout result))))"

section \<open>One implementation of the helpers, and concrete objects\<close>

text \<open>
  To run the model on concrete inputs the parameters need values. The theorems below do
  not depend on them: they are stated for every \<open>util\<close> and every \<open>runtime\<close>.
\<close>

definition flag_of :: "string \<Rightarrow> string" where
  "flag_of k = (if length k = 1 then ''-'' else ''--'') @ k"

fun arg_tokens :: "string \<Rightarrow> pyval \<Rightarrow> string list" where
  "arg_tokens k (PBool b) = (if b then [flag_of k] else [])"
| "arg_tokens k (PStr x) = [flag_of k, x]"
| "arg_tokens k (PInt i) = [flag_of k, str_int i]"
| "arg_tokens k PNone = [flag_of k, ''None'']"
| "arg_tokens k (PList xs) = concat (map (\<lambda>x. [flag_of k, x]) xs)"

definition posix_dict2args :: "dict \<Rightarrow> string list" where
  \<comment> \<open>Modelled from the spec: \<^verbatim>\<open>util.dict2args\<close> is not among the sources. The spec:
      "Flattens merged options into POSIX-style CLI tokens", the values being strings,
      booleans and lists. Here a key gives the flag \<^verbatim>\<open>-k\<close> or \<^verbatim>\<open>--key\<close>; \<^verbatim>\<open>True\<close> gives the
      flag alone, \<^verbatim>\<open>False\<close> nothing, a list the flag before each item, any other value
      the flag and the value.\<close>
  "posix_dict2args d = concat (map (\<lambda>(k, v). arg_tokens k v) d)"

definition first_verbose_flag :: "dict \<Rightarrow> pyval \<times> dict" where
  \<comment> \<open>Modelled from the spec: \<^verbatim>\<open>util.verbose_flag\<close> is not among the sources. The spec:
      "Derive a verbosity flag from the merged options". Here the flag is the first of the
      keys \<^verbatim>\<open>v\<close>, \<^verbatim>\<open>vv\<close>, \<^verbatim>\<open>vvv\<close> that has a truthy value; that key leaves the dictionary.\<close>
  "first_verbose_flag options =
     (case filter (get_truthy options) [''v'', ''vv'', ''vvv''] of
        [] \<Rightarrow> (PList [], options)
      | k # _ \<Rightarrow> (PList [CHR ''-'' # k], AList.delete k options))"

definition list_bool2args :: "pyval \<Rightarrow> string list" where
  \<comment> \<open>Modelled from the spec: \<^verbatim>\<open>util.bool2args\<close> is not among the sources. The spec:
      "verbosity-as-tokens". Here the flag, a list of tokens, is passed on.\<close>
  "list_bool2args flag = (case flag of PList xs \<Rightarrow> xs | _ \<Rightarrow> [])"

definition posix_util :: util where
  "posix_util =
     \<lparr> verbose_flag = first_verbose_flag,
       dict2args = posix_dict2args,
       bool2args = list_bool2args \<rparr>"

definition child :: "int \<Rightarrow> string \<Rightarrow> (string list \<Rightarrow> string) \<Rightarrow> (string \<Rightarrow> string) \<Rightarrow> runtime" where
  \<comment> \<open>a world whose sanity check passes and whose child process ends with the given return
      code and output; \<^verbatim>\<open>result.args\<close> is the command it was given\<close>
  "child rc out sj esc =
     \<lparr> sanity_checks = None,
       run_command = (\<lambda>cmd e dbg cwd.
         Inr \<lparr> returncode = rc, stdout = out,
               args = (case cmd of None \<Rightarrow> [] | Some c \<Rightarrow> c) \<rparr>),
       shlex_join = sj,
       escape = esc \<rparr>"

definition scenario_config :: config where
  "scenario_config =
     \<lparr> provisioner_options = [(''become'', PBool True), (''inventory'', PStr ''hosts.ini'')],
       provisioner_inventory_directory = PStr ''/tmp/inventory'',
       provisioner_playbooks_converge = Some ''converge.yml'',
       provisioner_distronode_args = [''--tags'', ''web''],
       config_distronode_args = [''--check''],
       config_action = Some ''converge'',
       provisioner_env = [(''HOME'', PStr ''/root'')],
       verifier_env = [],
       config_verifier_env = [],
       scenario_path = ''/scenario'',
       config_debug = False \<rparr>"

section \<open>Properties of the dictionaries\<close>

lemma map_of_merge_keys:
  "map_of (fold (\<lambda>k d. case map_of b k of None \<Rightarrow> d | Some v \<Rightarrow> AList.update k v d) ks a)
     = map_of a ++ (map_of b |` set ks)"
proof (induction ks arbitrary: a)
  case Nil
  show ?case by simp
next
  case (Cons k ks)
  show ?case
  proof (cases "map_of b k")
    case None
    then have "map_of b |` set (k # ks) = map_of b |` set ks"
      by (auto simp: restrict_map_def)
    with None Cons.IH [of a] show ?thesis by simp
  next
    case (Some v)
    then have "map_of (AList.update k v a) ++ (map_of b |` set ks)
                 = map_of a ++ (map_of b |` set (k # ks))"
      by (auto simp: AList.update_conv' map_add_def restrict_map_def split: option.splits)
    with Some Cons.IH [of "AList.update k v a"] show ?thesis by simp
  qed
qed

lemma map_of_merge_dicts: "map_of (merge_dicts a b) = map_of a ++ map_of b"
proof -
  have "map_of b |` set (map fst b) = map_of b"
    by (rule ext) (auto simp: restrict_map_def map_of_eq_None_iff [symmetric])
  then show ?thesis
    by (simp add: merge_dicts_def map_of_merge_keys)
qed

lemma add_cli_arg_fields [simp]:
  "playbook (add_cli_arg n v s) = playbook s"
  "config (add_cli_arg n v s) = config s"
  "env (add_cli_arg n v s) = env s"
  "distronode_command (add_cli_arg n v s) = distronode_command s"
  by (simp_all add: add_cli_arg_def)

section \<open>The shape of the baked command\<close>

lemma bake_unset: "playbook s = None \<or> playbook s = Some [] \<Longrightarrow> bake U s = s"
  by (auto simp: bake_def)

lemma bake_set:
  assumes "playbook s = Some pb" and "pb \<noteq> []"
  shows "bake U s =
           (add_cli_arg ''inventory'' (provisioner_inventory_directory (config s)) s)
             \<lparr>distronode_command :=
                Some (''distronode-playbook'' # dict2args U (baked_options U s)
                      @ bool2args U (baked_verbose U s) @ baked_args s @ [pb])\<rparr>"
  using assms
  by (simp add: bake_def Let_def baked_options_def baked_verbose_def baked_args_def
      merged_options_def split: prod.splits)

text \<open>
  Claim C1. Whenever a playbook path is set (neither \<^verbatim>\<open>None\<close> nor empty), the command
  that \<^verbatim>\<open>bake\<close> stores is, for every option mapping and every implementation of the
  helpers: the executable name \<^verbatim>\<open>distronode-playbook\<close>, then the tokens \<^verbatim>\<open>dict2args\<close> makes
  of the options, then the tokens \<^verbatim>\<open>bool2args\<close> makes of the verbosity flag, then the
  extra argument lists, then the playbook path, which is the last token.
\<close>

theorem bake_command_layout:
  assumes "playbook s = Some pb" and "pb \<noteq> []"
  shows "\<exists>cmd. distronode_command (bake U s) = Some cmd
           \<and> cmd = [''distronode-playbook''] @ dict2args U (baked_options U s)
                   @ bool2args U (baked_verbose U s) @ baked_args s @ [pb]
           \<and> hd cmd = ''distronode-playbook''
           \<and> last cmd = pb"
  using assms by (simp add: bake_set)

theorem bake_command_layout_witness:
  "\<exists>cmd. distronode_command (bake posix_util (init (Some ''converge.yml'') scenario_config False))
           = Some cmd
     \<and> cmd = [''distronode-playbook''] @ [''--become'', ''--inventory'', ''/tmp/inventory'']
             @ [] @ [''--tags'', ''web'', ''--check''] @ [''converge.yml'']
     \<and> hd cmd = ''distronode-playbook''
     \<and> last cmd = ''converge.yml''"
  using bake_command_layout [of "init (Some ''converge.yml'') scenario_config False"
      "''converge.yml''" posix_util]
  by (simp add: init_def scenario_config_def posix_util_def baked_options_def baked_verbose_def
      baked_args_def merged_options_def add_cli_arg_def merge_dicts_def first_verbose_flag_def
      get_truthy_def posix_dict2args_def list_bool2args_def flag_of_def)

section \<open>What baking and preparing leave alone\<close>

lemma bake_fields [simp]:
  "playbook (bake U s) = playbook s"
  "config (bake U s) = config s"
  "env (bake U s) = env s"
  by (simp_all add: bake_def Let_def split: option.splits prod.splits)

lemma bake_cli:
  "playbook s = Some pb \<Longrightarrow> pb \<noteq> [] \<Longrightarrow>
     cli (bake U s) = cli (add_cli_arg ''inventory'' (provisioner_inventory_directory (config s)) s)"
  by (simp add: bake_set)

lemma prepared_fields [simp]:
  "playbook (prepared U s) = playbook s"
  "config (prepared U s) = config s"
  "env (prepared U s) = env s"
  by (simp_all add: prepared_def)

section \<open>Lifecycle actions take no extra arguments\<close>

lemma merged_options_args [simp]:
  "merged_options (s\<lparr>config := (config s)\<lparr>provisioner_distronode_args := xs,
                                           config_distronode_args := ys\<rparr>\<rparr>)
   = merged_options s"
  by (simp add: merged_options_def add_cli_arg_def)

lemma baked_options_args [simp]:
  "baked_options U (s\<lparr>config := (config s)\<lparr>provisioner_distronode_args := xs,
                                            config_distronode_args := ys\<rparr>\<rparr>)
   = baked_options U s"
  by (simp add: baked_options_def)

lemma baked_verbose_args [simp]:
  "baked_verbose U (s\<lparr>config := (config s)\<lparr>provisioner_distronode_args := xs,
                                            config_distronode_args := ys\<rparr>\<rparr>)
   = baked_verbose U s"
  by (simp add: baked_verbose_def)

lemma baked_args_lifecycle:
  "config_action (config s) = Some ''create'' \<or> config_action (config s) = Some ''destroy''
   \<Longrightarrow> baked_args s = []"
  by (auto simp: baked_args_def)

text \<open>
  Claim C2. When the action is \<^verbatim>\<open>create\<close> or \<^verbatim>\<open>destroy\<close>, the command that \<^verbatim>\<open>bake\<close> stores
  does not depend on the two extra argument lists of the context: replacing them by any
  other lists gives the same command, and with a playbook set the command is the
  executable, the option tokens, the verbosity tokens and the playbook, with nothing in
  between.
\<close>

theorem bake_create_destroy_no_extra_args:
  assumes act: "config_action (config s) = Some ''create''
                \<or> config_action (config s) = Some ''destroy''"
  shows "distronode_command
           (bake U (s\<lparr>config := (config s)\<lparr>provisioner_distronode_args := xs,
                                             config_distronode_args := ys\<rparr>\<rparr>))
         = distronode_command (bake U s)
       \<and> (playbook s = Some pb \<and> pb \<noteq> [] \<longrightarrow>
            distronode_command (bake U s)
            = Some ([''distronode-playbook''] @ dict2args U (baked_options U s)
                    @ bool2args U (baked_verbose U s) @ [pb]))"
proof -
  let ?s' = "s\<lparr>config := (config s)\<lparr>provisioner_distronode_args := xs,
                                       config_distronode_args := ys\<rparr>\<rparr>"
  have act': "config_action (config ?s') = Some ''create''
              \<or> config_action (config ?s') = Some ''destroy''"
    using act by simp
  have set: "distronode_command (bake U t)
             = Some ([''distronode-playbook''] @ dict2args U (baked_options U t)
                     @ bool2args U (baked_verbose U t) @ [q])"
    if "playbook t = Some q" "q \<noteq> []"
       "config_action (config t) = Some ''create'' \<or> config_action (config t) = Some ''destroy''"
    for t q
    using that by (simp add: bake_set baked_args_lifecycle)
  have same: "distronode_command (bake U ?s') = distronode_command (bake U s)"
  proof (cases "playbook s = None \<or> playbook s = Some []")
    case True
    then have "bake U ?s' = ?s'" and "bake U s = s"
      by (simp_all add: bake_unset)
    then show ?thesis by simp
  next
    case False
    then obtain q where q: "playbook s = Some q" "q \<noteq> []" by auto
    then have "playbook ?s' = Some q" by simp
    from set [OF this q(2) act'] set [OF q act] show ?thesis by simp
  qed
  from same set [of s pb] act show ?thesis by blast
qed

theorem bake_create_destroy_no_extra_args_witness:
  "distronode_command
     (bake posix_util
        (init (Some ''create.yml'')
           (scenario_config\<lparr>config_action := Some ''create'', provisioner_distronode_args := [],
                             config_distronode_args := []\<rparr>) False))
   = distronode_command
       (bake posix_util
          (init (Some ''create.yml'') (scenario_config\<lparr>config_action := Some ''create''\<rparr>) False))
   \<and> distronode_command
       (bake posix_util
          (init (Some ''create.yml'') (scenario_config\<lparr>config_action := Some ''create''\<rparr>) False))
     = Some [''distronode-playbook'', ''--inventory'', ''/tmp/inventory'', ''create.yml'']"
  using bake_create_destroy_no_extra_args
    [of "init (Some ''create.yml'') (scenario_config\<lparr>config_action := Some ''create''\<rparr>) False"
        posix_util "[]" "[]" "''create.yml''"]
  by (simp add: init_def scenario_config_def posix_util_def baked_options_def baked_verbose_def
      merged_options_def add_cli_arg_def merge_dicts_def first_verbose_flag_def
      get_truthy_def posix_dict2args_def list_bool2args_def flag_of_def)

section \<open>The privilege-escalation option\<close>

lemma get_truthy_delete [simp]: "\<not> get_truthy (AList.delete k d) k"
  by (simp add: get_truthy_def AList.delete_conv')

text \<open>
  Claim C3, as amended. For a playbook other than the converge playbook, the dictionary
  that \<^verbatim>\<open>bake\<close> hands to \<^verbatim>\<open>dict2args\<close> has no truthy \<^verbatim>\<open>become\<close> entry: a \<^verbatim>\<open>become\<close> key with
  a truthy value is deleted, so that no \<^verbatim>\<open>become\<close> key is left, while a \<^verbatim>\<open>become\<close> key with
  a falsy value (\<^verbatim>\<open>False\<close>, the empty string, zero, \<^verbatim>\<open>None\<close>, an empty list) is not deleted:
  the dictionary is then handed over as \<^verbatim>\<open>verbose_flag\<close> left it.
\<close>

theorem bake_strips_truthy_become:
  assumes "playbook s = Some pb" and "pb \<noteq> []"
    and "Some pb \<noteq> provisioner_playbooks_converge (config s)"
  shows "\<exists>opts.
           distronode_command (bake U s)
             = Some ([''distronode-playbook''] @ dict2args U opts
                     @ bool2args U (baked_verbose U s) @ baked_args s @ [pb])
         \<and> \<not> get_truthy opts ''become''
         \<and> (if get_truthy (snd (verbose_flag U (merged_options s))) ''become''
            then opts = AList.delete ''become'' (snd (verbose_flag U (merged_options s)))
                 \<and> ''become'' \<notin> fst ` set opts
            else opts = snd (verbose_flag U (merged_options s)))"
proof (intro exI conjI)
  show "distronode_command (bake U s)
          = Some ([''distronode-playbook''] @ dict2args U (baked_options U s)
                  @ bool2args U (baked_verbose U s) @ baked_args s @ [pb])"
    using assms(1,2) by (simp add: bake_set)
  show "\<not> get_truthy (baked_options U s) ''become''"
    using assms(1,3) by (simp add: baked_options_def Let_def)
  show "if get_truthy (snd (verbose_flag U (merged_options s))) ''become''
        then baked_options U s = AList.delete ''become'' (snd (verbose_flag U (merged_options s)))
             \<and> ''become'' \<notin> fst ` set (baked_options U s)
        else baked_options U s = snd (verbose_flag U (merged_options s))"
    using assms(1,3) by (simp add: baked_options_def Let_def AList.delete_notin_dom)
qed

theorem bake_strips_truthy_become_witness:
  "\<exists>opts.
     distronode_command (bake posix_util (init (Some ''verify.yml'') scenario_config False))
       = Some ([''distronode-playbook''] @ posix_dict2args opts
               @ [] @ [''--tags'', ''web'', ''--check''] @ [''verify.yml''])
     \<and> \<not> get_truthy opts ''become''
     \<and> opts = [(''inventory'', PStr ''/tmp/inventory'')]
     \<and> ''become'' \<notin> fst ` set opts"
  using bake_strips_truthy_become
    [of "init (Some ''verify.yml'') scenario_config False" "''verify.yml''" posix_util]
  by (simp add: init_def scenario_config_def posix_util_def baked_verbose_def
      baked_args_def merged_options_def add_cli_arg_def merge_dicts_def first_verbose_flag_def
      get_truthy_def list_bool2args_def)

text \<open>
  For any value of \<^verbatim>\<open>become\<close> the statement fails: with \<^verbatim>\<open>become\<close> set to the empty string
  and the playbook \<^verbatim>\<open>verify.yml\<close>, which is not the converge playbook, the key stays in the
  dictionary handed to \<^verbatim>\<open>dict2args\<close>, and a POSIX-style rendering puts \<^verbatim>\<open>--become\<close> in the
  command.
\<close>

theorem bake_keeps_falsy_become:
  "Some ''verify.yml'' \<noteq> provisioner_playbooks_converge scenario_config
   \<and> map_of (baked_options posix_util
        (init (Some ''verify.yml'')
           (scenario_config\<lparr>provisioner_options := [(''become'', PStr '''')]\<rparr>) False))
       ''become'' = Some (PStr '''')
   \<and> distronode_command
       (bake posix_util
          (init (Some ''verify.yml'')
             (scenario_config\<lparr>provisioner_options := [(''become'', PStr '''')]\<rparr>) False))
     = Some [''distronode-playbook'', ''--become'', '''', ''--inventory'', ''/tmp/inventory'',
             ''--tags'', ''web'', ''--check'', ''verify.yml'']"
  by (simp add: init_def scenario_config_def posix_util_def baked_options_def bake_def
      merged_options_def add_cli_arg_def merge_dicts_def first_verbose_flag_def
      get_truthy_def posix_dict2args_def list_bool2args_def flag_of_def)

section \<open>Executing\<close>

lemma prepared_unset: "playbook s = None \<or> playbook s = Some [] \<Longrightarrow> prepared U s = s"
  by (simp add: prepared_def bake_unset)

lemma execute_run:
  assumes "playbook s = Some pb" and "pb \<noteq> []" and "sanity_checks R = None"
    and "run_command R (distronode_command (prepared U s)) (env s) (config_debug (config s))
           (scenario_path (config s)) = Inr r"
  shows "execute U R s =
           (prepared U s,
            [SanityChecks,
             RunCommand (distronode_command (prepared U s)) (env s) (config_debug (config s))
               (scenario_path (config s))],
            if returncode r \<noteq> 0
            then SysExit (returncode r)
                   (''Distronode return code was '' @ str_int (returncode r)
                    @ '', command was: [dim]'' @ escape R (shlex_join R (args r)) @ ''[/dim]'')
            else Returned (Some (stdout r)))"
  using assms by (simp add: execute_def Let_def sysexit_with_message_def)

text \<open>
  Claim C5. For an object whose playbook path is \<^verbatim>\<open>None\<close> or empty, \<^verbatim>\<open>execute\<close> returns
  \<^verbatim>\<open>None\<close>; all it does is log the warning: it starts no child process (and runs no sanity
  check), raises nothing, does not exit, and leaves the object as it was.
\<close>

theorem execute_without_playbook:
  assumes "playbook s = None \<or> playbook s = Some []"
  shows "execute U R s =
           (s,
            [LogWarning (''Skipping, '' @ str_action (config_action (config s))
                         @ '' action has no playbook.'')],
            Returned None)
       \<and> RunCommand c e d w \<notin> set (fst (snd (execute U R s)))"
  using assms by (auto simp: execute_def Let_def prepared_unset)

theorem execute_without_playbook_witness:
  "\<forall>R. execute posix_util R (init None scenario_config False) =
          (init None scenario_config False,
           [LogWarning ''Skipping, converge action has no playbook.''],
           Returned None)
     \<and> execute posix_util R (init (Some []) scenario_config False) =
          (init (Some []) scenario_config False,
           [LogWarning ''Skipping, converge action has no playbook.''],
           Returned None)"
proof
  fix R
  have a: "playbook (init None scenario_config False) = None
           \<or> playbook (init None scenario_config False) = Some []"
    by (simp add: init_def)
  have b: "playbook (init (Some []) scenario_config False) = None
           \<or> playbook (init (Some []) scenario_config False) = Some []"
    by (simp add: init_def)
  have c: "config_action (config (init p scenario_config False)) = Some ''converge''" for p
    by (simp add: init_def scenario_config_def)
  from execute_without_playbook [OF a, of posix_util R]
       execute_without_playbook [OF b, of posix_util R]
  show "execute posix_util R (init None scenario_config False) =
          (init None scenario_config False,
           [LogWarning ''Skipping, converge action has no playbook.''],
           Returned None)
     \<and> execute posix_util R (init (Some []) scenario_config False) =
          (init (Some []) scenario_config False,
           [LogWarning ''Skipping, converge action has no playbook.''],
           Returned None)"
    by (simp add: c str_action_def)
qed

text \<open>
  Claim C7. When the sanity check passes and the child process ends with return code 0,
  \<^verbatim>\<open>execute\<close> returns the \<^verbatim>\<open>stdout\<close> of the result of \<^verbatim>\<open>run_command\<close>, unchanged.
\<close>

theorem execute_returns_stdout:
  assumes "playbook s = Some pb" and "pb \<noteq> []" and "sanity_checks R = None"
    and "run_command R (distronode_command (prepared U s)) (env s) (config_debug (config s))
           (scenario_path (config s)) = Inr r"
    and "returncode r = 0"
  shows "snd (snd (execute U R s)) = Returned (Some (stdout r))"
  using assms by (simp add: execute_run)

theorem execute_returns_stdout_witness:
  "\<forall>sj esc.
     snd (snd (execute posix_util (child 0 ''PLAY RECAP'' sj esc)
                 (init (Some ''converge.yml'') scenario_config False)))
     = Returned (Some ''PLAY RECAP'')"
proof (intro allI)
  fix sj esc
  let ?s = "init (Some ''converge.yml'') scenario_config False"
  let ?R = "child 0 ''PLAY RECAP'' sj esc"
  let ?r = "\<lparr> returncode = 0, stdout = ''PLAY RECAP'',
             args = (case distronode_command (prepared posix_util ?s) of None \<Rightarrow> [] | Some c \<Rightarrow> c) \<rparr>"
  have "playbook ?s = Some ''converge.yml''" and "''converge.yml'' \<noteq> []"
    and "sanity_checks ?R = None"
    and "run_command ?R (distronode_command (prepared posix_util ?s)) (env ?s)
           (config_debug (config ?s)) (scenario_path (config ?s)) = Inr ?r"
    and "returncode ?r = 0"
    by (simp_all add: init_def child_def)
  from execute_returns_stdout [OF this]
  show "snd (snd (execute posix_util ?R ?s)) = Returned (Some ''PLAY RECAP'')"
    by simp
qed

text \<open>
  Claim C4. When the sanity check passes and the child process ends with a return code
  other than 0, \<^verbatim>\<open>execute\<close> ends the host process with that very code, and the message
  it prints holds the return code in decimal and \<^verbatim>\<open>escape(shlex.join(result.args))\<close>, the
  escaped shell form of the argument vector the result of \<^verbatim>\<open>run_command\<close> records.
\<close>

theorem execute_exits_with_returncode:
  assumes "playbook s = Some pb" and "pb \<noteq> []" and "sanity_checks R = None"
    and "run_command R (distronode_command (prepared U s)) (env s) (config_debug (config s))
           (scenario_path (config s)) = Inr r"
    and "returncode r \<noteq> 0"
  shows "snd (snd (execute U R s)) =
           SysExit (returncode r)
             (''Distronode return code was '' @ str_int (returncode r)
              @ '', command was: [dim]'' @ escape R (shlex_join R (args r)) @ ''[/dim]'')"
  using assms by (simp add: execute_run)

theorem execute_exits_with_returncode_witness:
  "\<forall>sj esc.
     snd (snd (execute posix_util (child 2 ''fatal'' sj esc)
                 (init (Some ''converge.yml'') scenario_config False)))
     = SysExit 2
         (''Distronode return code was 2, command was: [dim]''
          @ esc (sj [''distronode-playbook'', ''--become'', ''--inventory'', ''/tmp/inventory'',
                     ''--tags'', ''web'', ''--check'', ''converge.yml''])
          @ ''[/dim]'')"
proof (intro allI)
  fix sj esc
  let ?s = "init (Some ''converge.yml'') scenario_config False"
  let ?R = "child 2 ''fatal'' sj esc"
  let ?r = "\<lparr> returncode = 2, stdout = ''fatal'',
             args = (case distronode_command (prepared posix_util ?s) of None \<Rightarrow> [] | Some c \<Rightarrow> c) \<rparr>"
  have cmd: "distronode_command (prepared posix_util ?s)
             = Some [''distronode-playbook'', ''--become'', ''--inventory'', ''/tmp/inventory'',
                     ''--tags'', ''web'', ''--check'', ''converge.yml'']"
    by (simp add: prepared_def bake_def init_def scenario_config_def posix_util_def
        add_cli_arg_def merge_dicts_def first_verbose_flag_def
        get_truthy_def posix_dict2args_def list_bool2args_def flag_of_def)
  have "playbook ?s = Some ''converge.yml''" and "''converge.yml'' \<noteq> []"
    and "sanity_checks ?R = None"
    and "run_command ?R (distronode_command (prepared posix_util ?s)) (env ?s)
           (config_debug (config ?s)) (scenario_path (config ?s)) = Inr ?r"
    and "returncode ?r \<noteq> 0"
    by (simp_all add: init_def child_def)
  from execute_exits_with_returncode [OF this]
  show "snd (snd (execute posix_util ?R ?s))
        = SysExit 2
           (''Distronode return code was 2, command was: [dim]''
            @ esc (sj [''distronode-playbook'', ''--become'', ''--inventory'', ''/tmp/inventory'',
                       ''--tags'', ''web'', ''--check'', ''converge.yml''])
            @ ''[/dim]'')"
    by (simp add: cmd child_def str_int_def str_nat.simps)
qed

section \<open>Baking once, executing many times\<close>

lemma add_cli_arg_twice [simp]: "add_cli_arg n v (add_cli_arg n v s) = add_cli_arg n v s"
  by (simp add: add_cli_arg_def)

lemma add_cli_arg_command [simp]:
  "add_cli_arg n v (s\<lparr>distronode_command := c\<rparr>) = (add_cli_arg n v s)\<lparr>distronode_command := c\<rparr>"
  by (simp add: add_cli_arg_def)

lemma merged_options_add_inventory [simp]:
  "merged_options (add_cli_arg ''inventory'' (provisioner_inventory_directory (config s)) s)
   = merged_options s"
  by (simp add: merged_options_def)

lemma merged_options_command [simp]:
  "merged_options (s\<lparr>distronode_command := c\<rparr>) = merged_options s"
  by (simp add: merged_options_def)

lemma merged_options_bake [simp]: "merged_options (bake U s) = merged_options s"
proof (cases "playbook s = None \<or> playbook s = Some []")
  case True
  then show ?thesis by (simp add: bake_unset)
next
  case False
  then obtain pb where "playbook s = Some pb" "pb \<noteq> []" by auto
  then show ?thesis by (simp add: bake_set)
qed

lemma baked_bake [simp]:
  "baked_options U (bake U s) = baked_options U s"
  "baked_verbose U (bake U s) = baked_verbose U s"
  "baked_args (bake U s) = baked_args s"
  by (simp_all add: baked_options_def baked_verbose_def baked_args_def)

lemma bake_idem: "bake U (bake U s) = bake U s"
proof (cases "playbook s = None \<or> playbook s = Some []")
  case True
  then show ?thesis by (simp add: bake_unset)
next
  case False
  then obtain pb where pb: "playbook s = Some pb" "pb \<noteq> []" by auto
  let ?v = "provisioner_inventory_directory (config s)"
  let ?cmd = "Some (''distronode-playbook'' # dict2args U (baked_options U s)
                    @ bool2args U (baked_verbose U s) @ baked_args s @ [pb])"
  have once: "bake U s = (add_cli_arg ''inventory'' ?v s)\<lparr>distronode_command := ?cmd\<rparr>"
    by (rule bake_set [OF pb])
  have "playbook (bake U s) = Some pb" using pb by simp
  from bake_set [OF this pb(2), of U]
  have "bake U (bake U s) = (add_cli_arg ''inventory'' ?v (bake U s))\<lparr>distronode_command := ?cmd\<rparr>"
    by simp
  also have "add_cli_arg ''inventory'' ?v (bake U s) = bake U s"
    by (simp add: once)
  also have "(bake U s)\<lparr>distronode_command := ?cmd\<rparr> = bake U s"
    by (simp add: once)
  finally show ?thesis .
qed

lemma prepared_baked: "distronode_command s \<noteq> None \<Longrightarrow> prepared U s = s"
  by (auto simp: prepared_def)

lemma prepared_bake: "prepared U (bake U s) = bake U s"
  by (simp add: prepared_def bake_idem)

lemma execute_state: "fst (execute U R s) = prepared U s"
  by (simp add: execute_def Let_def split: option.splits sum.splits)

lemma execute_runs_prepared:
  "RunCommand c e d w \<in> set (fst (snd (execute U R s)))
   \<Longrightarrow> c = distronode_command (prepared U s) \<and> e = env s"
  by (auto simp: execute_def Let_def split: option.splits sum.splits if_splits)

text \<open>
  Claim C8. \<^verbatim>\<open>bake\<close> is idempotent: baking a second time, with the context unchanged,
  leaves the whole object, and so the baked command, as the first call left it. And
  \<^verbatim>\<open>execute\<close> does not bake again when a command is there: it leaves an object holding a
  command as it is, and every child process it starts is given that very command, also
  when the command comes from an earlier \<^verbatim>\<open>bake\<close>.
\<close>

theorem bake_idempotent_execute_reuses:
  "bake U (bake U s) = bake U s
   \<and> (distronode_command s \<noteq> None \<longrightarrow>
        fst (execute U R s) = s
        \<and> (RunCommand c e d w \<in> set (fst (snd (execute U R s))) \<longrightarrow> c = distronode_command s))
   \<and> fst (execute U R (bake U s)) = bake U s
   \<and> (RunCommand c e d w \<in> set (fst (snd (execute U R (bake U s))))
        \<longrightarrow> c = distronode_command (bake U s))"
proof (intro conjI impI)
  show "bake U (bake U s) = bake U s" by (rule bake_idem)
  show "fst (execute U R s) = s" if "distronode_command s \<noteq> None"
    using that by (simp add: execute_state prepared_baked)
  show "c = distronode_command s"
    if "distronode_command s \<noteq> None" "RunCommand c e d w \<in> set (fst (snd (execute U R s)))"
    using execute_runs_prepared [OF that(2)] that(1) by (simp add: prepared_baked)
  show "fst (execute U R (bake U s)) = bake U s"
    by (simp add: execute_state prepared_bake)
  show "c = distronode_command (bake U s)"
    if "RunCommand c e d w \<in> set (fst (snd (execute U R (bake U s))))"
    using execute_runs_prepared [OF that] by (simp add: prepared_bake)
qed

theorem bake_idempotent_execute_reuses_witness:
  "\<forall>sj esc.
     bake posix_util
       (bake posix_util
          ((init (Some ''converge.yml'') scenario_config False)
             \<lparr>distronode_command := Some [''distronode-playbook'', ''earlier.yml'']\<rparr>))
     = bake posix_util
         ((init (Some ''converge.yml'') scenario_config False)
            \<lparr>distronode_command := Some [''distronode-playbook'', ''earlier.yml'']\<rparr>)
   \<and> fst (execute posix_util (child 0 ''ok'' sj esc)
            ((init (Some ''converge.yml'') scenario_config False)
               \<lparr>distronode_command := Some [''distronode-playbook'', ''earlier.yml'']\<rparr>))
     = (init (Some ''converge.yml'') scenario_config False)
         \<lparr>distronode_command := Some [''distronode-playbook'', ''earlier.yml'']\<rparr>
   \<and> fst (snd (execute posix_util (child 0 ''ok'' sj esc)
                 ((init (Some ''converge.yml'') scenario_config False)
                    \<lparr>distronode_command := Some [''distronode-playbook'', ''earlier.yml'']\<rparr>)))
     = [SanityChecks,
        RunCommand (Some [''distronode-playbook'', ''earlier.yml''])
          [(''HOME'', PStr ''/root'')] False ''/scenario'']"
proof (intro allI)
  fix sj esc
  let ?t = "(init (Some ''converge.yml'') scenario_config False)
              \<lparr>distronode_command := Some [''distronode-playbook'', ''earlier.yml'']\<rparr>"
  let ?R = "child 0 ''ok'' sj esc"
  have there: "distronode_command ?t \<noteq> None" by simp
  have run: "fst (snd (execute posix_util ?R ?t))
             = [SanityChecks,
                RunCommand (Some [''distronode-playbook'', ''earlier.yml''])
                  [(''HOME'', PStr ''/root'')] False ''/scenario'']"
    by (simp add: execute_def prepared_def Let_def init_def child_def scenario_config_def)
  from bake_idempotent_execute_reuses [of posix_util ?t ?R] there run
  show "bake posix_util (bake posix_util ?t) = bake posix_util ?t
        \<and> fst (execute posix_util ?R ?t) = ?t
        \<and> fst (snd (execute posix_util ?R ?t))
          = [SanityChecks,
             RunCommand (Some [''distronode-playbook'', ''earlier.yml''])
               [(''HOME'', PStr ''/root'')] False ''/scenario'']"
    by blast
qed

section \<open>Local overrides and the inventory\<close>

lemma map_of_merged_options:
  "map_of (merged_options s) k =
     (case map_of (cli (add_cli_arg ''inventory'' (provisioner_inventory_directory (config s)) s)) k of
        Some w \<Rightarrow> Some w
      | None \<Rightarrow> map_of (provisioner_options (config s)) k)"
  by (simp add: merged_options_def map_of_merge_dicts map_add_def split: option.splits)

lemma cli_add_cli_arg:
  "cli (add_cli_arg n v s) = (if truthy v then AList.update n v (cli s) else cli s)"
  by (simp add: add_cli_arg_def)

text \<open>
  Claim C6, as amended. \<^verbatim>\<open>add_cli_arg\<close> with a falsy value leaves the object, and so the
  local overrides, unchanged. With a truthy value it stores the override, and the
  dictionary that \<^verbatim>\<open>bake\<close> merges (line 69) then holds that value under the name, whatever
  the context's options hold there; but for the name \<^verbatim>\<open>inventory\<close>, when the context's
  inventory directory is truthy, \<^verbatim>\<open>bake\<close> first replaces the caller's override by that
  directory (line 68), and the merged dictionary holds the directory.
\<close>

theorem add_cli_arg_override:
  "(\<not> truthy v \<longrightarrow> add_cli_arg n v s = s)
   \<and> (truthy v \<longrightarrow>
        cli (add_cli_arg n v s) = AList.update n v (cli s)
        \<and> map_of (cli (add_cli_arg n v s)) n = Some v
        \<and> map_of (merged_options (add_cli_arg n v s)) n
          = Some (if n = ''inventory'' \<and> truthy (provisioner_inventory_directory (config s))
                  then provisioner_inventory_directory (config s) else v))"
proof (intro conjI impI)
  show "add_cli_arg n v s = s" if "\<not> truthy v"
    using that by (simp add: add_cli_arg_def)
  show "cli (add_cli_arg n v s) = AList.update n v (cli s)" if "truthy v"
    using that by (simp add: cli_add_cli_arg)
  show "map_of (cli (add_cli_arg n v s)) n = Some v" if "truthy v"
    using that by (simp add: cli_add_cli_arg AList.update_conv')
  show "map_of (merged_options (add_cli_arg n v s)) n
        = Some (if n = ''inventory'' \<and> truthy (provisioner_inventory_directory (config s))
                then provisioner_inventory_directory (config s) else v)"
    if "truthy v"
    using that by (simp add: map_of_merged_options cli_add_cli_arg AList.update_conv')
qed

theorem add_cli_arg_override_witness:
  "add_cli_arg ''tags'' (PStr '''') (init (Some ''converge.yml'') scenario_config False)
     = init (Some ''converge.yml'') scenario_config False
   \<and> cli (add_cli_arg ''become'' (PStr ''yes'') (init (Some ''converge.yml'') scenario_config False))
     = [(''become'', PStr ''yes'')]
   \<and> map_of (provisioner_options
        (config (add_cli_arg ''become'' (PStr ''yes'')
           (init (Some ''converge.yml'') scenario_config False)))) ''become''
     = Some (PBool True)
   \<and> map_of (merged_options
        (add_cli_arg ''become'' (PStr ''yes'') (init (Some ''converge.yml'') scenario_config False)))
        ''become''
     = Some (PStr ''yes'')"
  using add_cli_arg_override [of "PStr ''''" "''tags''" "init (Some ''converge.yml'') scenario_config False"]
    add_cli_arg_override [of "PStr ''yes''" "''become''" "init (Some ''converge.yml'') scenario_config False"]
  by (simp add: init_def scenario_config_def)

text \<open>
  For every name the statement fails: the caller's override \<^verbatim>\<open>inventory = mine\<close> is stored, yet
  with the inventory directory \<^verbatim>\<open>/tmp/inventory\<close> the merged dictionary and the command hold
  the directory, not the caller's value.
\<close>

theorem add_cli_arg_inventory_replaced:
  "truthy (PStr ''mine'')
   \<and> map_of (cli (add_cli_arg ''inventory'' (PStr ''mine'')
        (init (Some ''converge.yml'') scenario_config False))) ''inventory''
     = Some (PStr ''mine'')
   \<and> map_of (merged_options (add_cli_arg ''inventory'' (PStr ''mine'')
        (init (Some ''converge.yml'') scenario_config False))) ''inventory''
     = Some (PStr ''/tmp/inventory'')
   \<and> distronode_command (bake posix_util (add_cli_arg ''inventory'' (PStr ''mine'')
        (init (Some ''converge.yml'') scenario_config False)))
     = Some [''distronode-playbook'', ''--become'', ''--inventory'', ''/tmp/inventory'',
             ''--tags'', ''web'', ''--check'', ''converge.yml'']"
  by (simp add: init_def scenario_config_def posix_util_def bake_def
      merged_options_def add_cli_arg_def merge_dicts_def first_verbose_flag_def
      get_truthy_def posix_dict2args_def list_bool2args_def flag_of_def)

text \<open>
  Claim C10, as amended. With a playbook set, \<^verbatim>\<open>bake\<close> stores the context's inventory
  directory as the local \<^verbatim>\<open>inventory\<close> override when that directory is truthy, over any
  override the caller added before, and the merged dictionary holds it. When the directory
  is falsy, \<^verbatim>\<open>bake\<close> adds no override of its own and leaves the local overrides as they
  are: the merged dictionary then holds under \<^verbatim>\<open>inventory\<close> the caller's override if there
  is one, else the entry of the context's options if there is one, else nothing.
\<close>

theorem bake_inventory_override:
  assumes "playbook s = Some pb" and "pb \<noteq> []"
  shows "(truthy (provisioner_inventory_directory (config s)) \<longrightarrow>
            cli (bake U s) = AList.update ''inventory'' (provisioner_inventory_directory (config s)) (cli s)
            \<and> map_of (cli (bake U s)) ''inventory'' = Some (provisioner_inventory_directory (config s))
            \<and> map_of (merged_options s) ''inventory'' = Some (provisioner_inventory_directory (config s)))
       \<and> (\<not> truthy (provisioner_inventory_directory (config s)) \<longrightarrow>
            cli (bake U s) = cli s
            \<and> map_of (merged_options s) ''inventory''
              = (case map_of (cli s) ''inventory'' of
                   Some w \<Rightarrow> Some w
                 | None \<Rightarrow> map_of (provisioner_options (config s)) ''inventory''))"
  using assms
  by (simp add: bake_set map_of_merged_options cli_add_cli_arg AList.update_conv')

theorem bake_inventory_override_witness:
  "cli (bake posix_util
          (add_cli_arg ''inventory'' (PStr ''mine'') (init (Some ''converge.yml'') scenario_config False)))
     = [(''inventory'', PStr ''/tmp/inventory'')]
   \<and> cli (bake posix_util
          (add_cli_arg ''inventory'' (PStr ''mine'')
             (init (Some ''converge.yml'')
                (scenario_config\<lparr>provisioner_inventory_directory := PNone\<rparr>) False)))
     = [(''inventory'', PStr ''mine'')]"
  using bake_inventory_override
      [of "add_cli_arg ''inventory'' (PStr ''mine'') (init (Some ''converge.yml'') scenario_config False)"
          "''converge.yml''" posix_util]
    bake_inventory_override
      [of "add_cli_arg ''inventory'' (PStr ''mine'')
             (init (Some ''converge.yml'') (scenario_config\<lparr>provisioner_inventory_directory := PNone\<rparr>) False)"
          "''converge.yml''" posix_util]
  by (simp add: init_def scenario_config_def add_cli_arg_def)

text \<open>
  With a falsy inventory directory the command can still hold an inventory argument: the
  one of the context's options (\<^verbatim>\<open>hosts.ini\<close>), or the one the caller added (\<^verbatim>\<open>mine\<close>).
\<close>

theorem bake_falsy_inventory_directory_keeps_inventory:
  "\<not> truthy (provisioner_inventory_directory
        (scenario_config\<lparr>provisioner_inventory_directory := PNone\<rparr>))
   \<and> distronode_command
       (bake posix_util
          (init (Some ''converge.yml'')
             (scenario_config\<lparr>provisioner_inventory_directory := PNone\<rparr>) False))
     = Some [''distronode-playbook'', ''--become'', ''--inventory'', ''hosts.ini'',
             ''--tags'', ''web'', ''--check'', ''converge.yml'']
   \<and> distronode_command
       (bake posix_util
          (add_cli_arg ''inventory'' (PStr ''mine'')
             (init (Some ''converge.yml'')
                (scenario_config\<lparr>provisioner_inventory_directory := PNone\<rparr>) False)))
     = Some [''distronode-playbook'', ''--become'', ''--inventory'', ''mine'',
             ''--tags'', ''web'', ''--check'', ''converge.yml'']"
  by (simp add: init_def scenario_config_def posix_util_def bake_def
      merged_options_def add_cli_arg_def merge_dicts_def first_verbose_flag_def
      get_truthy_def posix_dict2args_def list_bool2args_def flag_of_def)

section \<open>The environment\<close>

text \<open>
  Claim C9, as amended. \<^verbatim>\<open>add_env_arg\<close> stores the variable whatever the value, an empty
  one too, and whether or not a command has been baked: it changes the environment and
  nothing else. \<^verbatim>\<open>bake\<close> and \<^verbatim>\<open>execute\<close> never change the environment, and \<^verbatim>\<open>execute\<close> hands
  to every child process the environment as it is when \<^verbatim>\<open>execute\<close> is called.
\<close>

theorem add_env_arg_any_time:
  "env (add_env_arg n v s) = AList.update n v (env s)
   \<and> map_of (env (add_env_arg n v s)) n = Some v
   \<and> distronode_command (add_env_arg n v s) = distronode_command s
   \<and> cli (add_env_arg n v s) = cli s
   \<and> env (bake U s) = env s
   \<and> env (fst (execute U R s)) = env s
   \<and> (RunCommand c e d w \<in> set (fst (snd (execute U R s))) \<longrightarrow> e = env s)"
  using execute_runs_prepared [of c e d w U R s]
  by (simp add: add_env_arg_def AList.update_conv' execute_state)

theorem add_env_arg_any_time_witness:
  "\<forall>sj esc.
     env (add_env_arg ''DISTRONODE_FORCE_COLOR'' (PStr '''')
            (bake posix_util (init (Some ''converge.yml'') scenario_config False)))
       = [(''HOME'', PStr ''/root''), (''DISTRONODE_FORCE_COLOR'', PStr '''')]
     \<and> fst (snd (execute posix_util (child 0 ''ok'' sj esc)
                   (add_env_arg ''DISTRONODE_FORCE_COLOR'' (PStr '''')
                      (bake posix_util (init (Some ''converge.yml'') scenario_config False)))))
       = [SanityChecks,
          RunCommand
            (Some [''distronode-playbook'', ''--become'', ''--inventory'', ''/tmp/inventory'',
                   ''--tags'', ''web'', ''--check'', ''converge.yml''])
            [(''HOME'', PStr ''/root''), (''DISTRONODE_FORCE_COLOR'', PStr '''')]
            False ''/scenario'']"
proof (intro allI)
  fix sj esc
  let ?b = "bake posix_util (init (Some ''converge.yml'') scenario_config False)"
  let ?R = "child 0 ''ok'' sj esc"
  have b: "?b = \<lparr> distronode_command =
                   Some [''distronode-playbook'', ''--become'', ''--inventory'', ''/tmp/inventory'',
                         ''--tags'', ''web'', ''--check'', ''converge.yml''],
                 playbook = Some ''converge.yml'', config = scenario_config,
                 cli = [(''inventory'', PStr ''/tmp/inventory'')],
                 env = [(''HOME'', PStr ''/root'')] \<rparr>"
    by (simp add: init_def scenario_config_def posix_util_def bake_def
        add_cli_arg_def merge_dicts_def first_verbose_flag_def
        get_truthy_def posix_dict2args_def list_bool2args_def flag_of_def)
  have e: "env (add_env_arg ''DISTRONODE_FORCE_COLOR'' (PStr '''') ?b)
           = [(''HOME'', PStr ''/root''), (''DISTRONODE_FORCE_COLOR'', PStr '''')]"
    using add_env_arg_any_time [of "''DISTRONODE_FORCE_COLOR''" "PStr ''''" ?b]
    unfolding b by simp
  have "fst (snd (execute posix_util ?R (add_env_arg ''DISTRONODE_FORCE_COLOR'' (PStr '''') ?b)))
        = [SanityChecks,
           RunCommand
             (Some [''distronode-playbook'', ''--become'', ''--inventory'', ''/tmp/inventory'',
                    ''--tags'', ''web'', ''--check'', ''converge.yml''])
             [(''HOME'', PStr ''/root''), (''DISTRONODE_FORCE_COLOR'', PStr '''')]
             False ''/scenario'']"
    unfolding b
    by (simp add: execute_def prepared_def Let_def add_env_arg_def child_def scenario_config_def)
  with e show "env (add_env_arg ''DISTRONODE_FORCE_COLOR'' (PStr '''') ?b)
       = [(''HOME'', PStr ''/root''), (''DISTRONODE_FORCE_COLOR'', PStr '''')]
     \<and> fst (snd (execute posix_util ?R (add_env_arg ''DISTRONODE_FORCE_COLOR'' (PStr '''') ?b)))
       = [SanityChecks,
          RunCommand
            (Some [''distronode-playbook'', ''--become'', ''--inventory'', ''/tmp/inventory'',
                   ''--tags'', ''web'', ''--check'', ''converge.yml''])
            [(''HOME'', PStr ''/root''), (''DISTRONODE_FORCE_COLOR'', PStr '''')]
            False ''/scenario'']"
    by simp
qed

text \<open>
  Nothing freezes the environment once the command is baked: \<^verbatim>\<open>add_env_arg\<close> called on a
  baked object adds the variable.
\<close>

theorem add_env_arg_after_bake_changes_env:
  "distronode_command (bake posix_util (init (Some ''converge.yml'') scenario_config False)) \<noteq> None
   \<and> env (bake posix_util (init (Some ''converge.yml'') scenario_config False))
     = [(''HOME'', PStr ''/root'')]
   \<and> env (add_env_arg ''DISTRONODE_FORCE_COLOR'' (PStr ''1'')
            (bake posix_util (init (Some ''converge.yml'') scenario_config False)))
     = [(''HOME'', PStr ''/root''), (''DISTRONODE_FORCE_COLOR'', PStr ''1'')]"
  by (simp add: init_def scenario_config_def bake_def add_env_arg_def add_cli_arg_def
      Let_def split: prod.splits)

end
